theory Spec2Isabelle
  imports
    Complex_Main
    "HOL-Library.Char_ord"
    "HOL-Library.List_Lexorder"
    "HOL-Library.AList"
begin

section \<open>Python and Django primitives used by the inventory application\<close>

text \<open>
  The application is a Django project: \<^verbatim>\<open>inventory/models.py\<close> holds the models
  (Product, Invoice, InvoiceItem, StockHistory) and \<^verbatim>\<open>inventory/views.py\<close> the request
  handlers. Python integers are modelled as \<open>int\<close>, \<open>Decimal\<close> values as \<open>rat\<close>
  (for amounts within the twelve digits of the money columns every product and quotient
  the code takes stays below the 28 significant digits of the decimal context, so the
  arithmetic is exact), strings as \<open>string\<close> restricted to ASCII. An exception is a value of type \<open>error\<close>; a function that can raise returns a
  sum with \<open>Inl\<close> for the exception.
\<close>

datatype error =
    ValueError string             \<comment> \<open>\<^verbatim>\<open>raise ValueError(msg)\<close> written in the source\<close>
  | InvalidLiteral string         \<comment> \<open>the ValueError of \<^verbatim>\<open>int(s)\<close> on a string that is no integer\<close>
  | MultiValueDictKeyError string \<comment> \<open>\<^verbatim>\<open>request.POST[key]\<close> with the key missing\<close>
  | UnboundLocalError string      \<comment> \<open>read of a local variable no branch has assigned\<close>
  | DoesNotExist string           \<comment> \<open>a foreign key whose row is missing\<close>
  | UnsavedInstance               \<comment> \<open>a related manager used on an instance without primary key\<close>

subsection \<open>Integers and strings\<close>

definition is_digit :: "char \<Rightarrow> bool" where
  "is_digit c = (c \<in> set ''0123456789'')"

definition digit_value :: "char \<Rightarrow> nat" where
  "digit_value c = of_char c - 48"

text \<open>The value of a string of decimal digits, most significant digit first.\<close>

definition digits_value :: "string \<Rightarrow> nat" where
  "digits_value ds = foldl (\<lambda>acc c. 10 * acc + digit_value c) 0 ds"

text \<open>
  The whitespace \<^verbatim>\<open>int()\<close> strips: tab, line feed, vertical tab, form feed, carriage
  return, the four separators 0x1c to 0x1f, and the space.
\<close>

definition is_space :: "char \<Rightarrow> bool" where
  "is_space c = (let n = (of_char c :: nat) in (9 \<le> n \<and> n \<le> 13) \<or> (28 \<le> n \<and> n \<le> 32))"

definition strip :: "string \<Rightarrow> string" where
  "strip s = rev (dropWhile is_space (rev (dropWhile is_space s)))"

text \<open>
  The digit part of an integer literal: digits, with single underscores allowed between
  two digits.
\<close>

fun digit_groups :: "string \<Rightarrow> bool" where
  "digit_groups [] = False"
| "digit_groups [c] = is_digit c"
| "digit_groups (c # d # rest) =
     (is_digit c \<and> (if d = CHR ''_'' then digit_groups rest else digit_groups (d # rest)))"

text \<open>
  \<^verbatim>\<open>int(s)\<close> for a string in base 10: surrounding whitespace is dropped, one sign is
  allowed, and the rest must be a digit part. (The limit on the number of digits that
  recent Python versions enforce, 4300, is beyond every string the application stores.)
\<close>

definition py_int :: "string \<Rightarrow> error + int" where
  "py_int s =
     (let t = strip s;
          negative = (t \<noteq> [] \<and> hd t = CHR ''-'');
          body = (if t \<noteq> [] \<and> (hd t = CHR ''-'' \<or> hd t = CHR ''+'') then tl t else t)
      in if digit_groups body
         then let v = int (digits_value (filter (\<lambda>c. c \<noteq> CHR ''_'') body))
              in Inr (if negative then - v else v)
         else Inl (InvalidLiteral s))"

text \<open>\<^verbatim>\<open>str(n)\<close> for a natural number and for an integer.\<close>

fun nat_digits :: "nat \<Rightarrow> string" where
  "nat_digits n =
     (if n < 10 then [''0123456789'' ! n]
      else nat_digits (n div 10) @ [''0123456789'' ! (n mod 10)])"

declare nat_digits.simps [simp del]

definition str_int :: "int \<Rightarrow> string" where
  "str_int i = (if i < 0 then CHR ''-'' # nat_digits (nat (- i)) else nat_digits (nat i))"

text \<open>
  The format specification \<^verbatim>\<open>{n:0wd}\<close>: the decimal digits of \<open>n\<close>, filled with zeros on
  the left up to the width \<open>w\<close>; a minus sign counts for the width and stays in front. A
  number with more digits than the width is printed in full.
\<close>

definition format_0d :: "nat \<Rightarrow> int \<Rightarrow> string" where
  "format_0d w i =
     (if i < 0
      then CHR ''-'' # replicate (w - 1 - length (nat_digits (nat (- i)))) CHR ''0''
             @ nat_digits (nat (- i))
      else replicate (w - length (nat_digits (nat i))) CHR ''0'' @ nat_digits (nat i))"

text \<open>\<^verbatim>\<open>s.split('-')[-1]\<close>: what follows the last hyphen, the whole string if there is none.\<close>

definition last_segment :: "string \<Rightarrow> string" where
  "last_segment s = rev (takeWhile (\<lambda>c. c \<noteq> CHR ''-'') (rev s))"

text \<open>\<^verbatim>\<open>s.startswith(p)\<close>.\<close>

definition startswith :: "string \<Rightarrow> string \<Rightarrow> bool" where
  "startswith s p = (take (length p) s = p)"

text \<open>
  The aggregate \<^verbatim>\<open>Max\<close> over a text column: the greatest string in the order of the
  character codes, \<open>None\<close> (SQL NULL) over no rows.
\<close>

definition aggregate_max :: "string list \<Rightarrow> string option" where
  "aggregate_max xs = (case xs of [] \<Rightarrow> None | x # rest \<Rightarrow> Some (foldl max x rest))"

subsection \<open>Dates\<close>

text \<open>
  What \<^verbatim>\<open>timezone.now()\<close> returns: the calendar date and the time of day (in seconds).
  \<^verbatim>\<open>strftime('%Y%m%d')\<close> prints year, month and day with four, two and two digits.
\<close>

record datetime =
  dt_year :: nat
  dt_month :: nat
  dt_day :: nat
  dt_seconds :: nat

definition valid_date :: "datetime \<Rightarrow> bool" where
  "valid_date d =
     (1000 \<le> dt_year d \<and> dt_year d \<le> 9999 \<and> 1 \<le> dt_month d \<and> dt_month d \<le> 12
      \<and> 1 \<le> dt_day d \<and> dt_day d \<le> 31)"

definition strftime_Ymd :: "datetime \<Rightarrow> string" where
  "strftime_Ymd d =
     format_0d 4 (int (dt_year d)) @ format_0d 2 (int (dt_month d)) @ format_0d 2 (int (dt_day d))"

subsection \<open>Decimal columns\<close>

text \<open>
  Every money column is declared \<^verbatim>\<open>DecimalField(..., decimal_places=2)\<close>. A value written
  to such a column is quantized to two decimal places, ties going to the even neighbour
  (the rounding of the default decimal context).
\<close>

definition quantize2 :: "rat \<Rightarrow> rat" where
  "quantize2 x =
     (let y = x * 100; f = \<lfloor>y\<rfloor>; r = y - of_int f
      in of_int (if r < 1 / 2 then f else if 1 / 2 < r then f + 1
                 else if even f then f else f + 1) / 100)"

section \<open>The data model\<close>

text \<open>
  One record per model class of \<^verbatim>\<open>inventory/models.py\<close>. The fields keep their names,
  behind a prefix for the model (\<open>p_\<close> Product, \<open>inv_\<close> Invoice, \<open>item_\<close> InvoiceItem,
  \<open>sh_\<close> StockHistory), since several models have a \<open>quantity\<close>. Columns that no
  operation below reads (description, category, image, the automatic timestamps) are left
  out. A foreign key is the primary key of the row it points to; users are known by their
  primary key only.
\<close>

type_synonym pk = nat
type_synonym user = nat

record product =
  p_sku :: string
  p_name :: string
  p_quantity :: int
  p_cost_price :: rat
  p_selling_price :: rat
  p_low_stock_threshold :: int
  p_is_active :: bool

record invoice =
  inv_pk :: "pk option"             \<comment> \<open>\<open>None\<close> until the first save\<close>
  inv_invoice_number :: string
  inv_customer :: "pk option"
  inv_created_by :: "user option"
  inv_date_created :: datetime
  inv_subtotal :: rat
  inv_tax_rate :: rat
  inv_tax_amount :: rat
  inv_total_amount :: rat
  inv_is_paid :: bool
  inv_paid_at :: "datetime option"
  inv_notes :: string

record invoice_item =
  item_invoice :: pk
  item_product :: pk
  item_quantity :: int
  item_unit_price :: rat

record stock_history =
  sh_product :: pk
  sh_transaction_type :: string     \<comment> \<open>\<^verbatim>\<open>'IN'\<close>, \<^verbatim>\<open>'OUT'\<close> or \<^verbatim>\<open>'ADJ'\<close>\<close>
  sh_quantity :: int
  sh_note :: string
  sh_created_by :: "user option"

text \<open>
  The database: one table per model, a row stored under its primary key; the ledger
  (StockHistory) in the order of creation. The tables accept every row: a constraint
  violation raised by the database itself (a second invoice with the same number, a value
  beyond the range of its column) is not part of the model.
\<close>

record db =
  products :: "(pk \<times> product) list"
  invoices :: "(pk \<times> invoice) list"
  items :: "(pk \<times> invoice_item) list"
  stock_history :: "stock_history list"

text \<open>The primary key given to a new row: one more than the greatest key of the table.\<close>

definition fresh_pk :: "(pk \<times> 'row) list \<Rightarrow> pk" where
  "fresh_pk table = Suc (foldl max 0 (map fst table))"

text \<open>
  \<^verbatim>\<open>with transaction.atomic():\<close> the block runs on the database, and what it wrote is kept
  unless it ends by an exception (\<open>raised\<close> tells so from the block's result), in which
  case the database is as it was on entry.
\<close>

definition atomic :: "('r \<Rightarrow> bool) \<Rightarrow> (db \<Rightarrow> 'r \<times> db) \<Rightarrow> db \<Rightarrow> 'r \<times> db" where
  "atomic raised block d = (case block d of (r, d') \<Rightarrow> (r, if raised r then d else d'))"

subsection \<open>Product and StockHistory\<close>

text \<open>\<^verbatim>\<open>product.save()\<close> of a product read from row \<open>i\<close>.\<close>

definition product_save :: "pk \<Rightarrow> product \<Rightarrow> db \<Rightarrow> db" where
  "product_save i p d = d\<lparr>products := AList.update i p (products d)\<rparr>"

text \<open>
  \<^verbatim>\<open>StockHistory.objects.create(...)\<close>: the entry is stored as given. (\<^verbatim>\<open>create\<close> saves
  the instance; it does not run the model's \<^verbatim>\<open>clean\<close>.)
\<close>

definition stock_history_create ::
  "pk \<Rightarrow> string \<Rightarrow> int \<Rightarrow> string \<Rightarrow> user option \<Rightarrow> db \<Rightarrow> db" where
  "stock_history_create product transaction_type quantity note created_by d =
     d\<lparr>stock_history := stock_history d @
          [\<lparr>sh_product = product, sh_transaction_type = transaction_type,
            sh_quantity = quantity, sh_note = note, sh_created_by = created_by\<rparr>]\<rparr>"


text \<open>The sum of the ledger's quantities for one product.\<close>

definition ledger_sum :: "pk \<Rightarrow> db \<Rightarrow> int" where
  "ledger_sum i d = sum_list (map sh_quantity (filter (\<lambda>e. sh_product e = i) (stock_history d)))"

section \<open>Stock operations: \<^verbatim>\<open>update_stock\<close> (views.py, lines 229 to 268)\<close>

text \<open>
  The request as the view reads it: the method, the POST fields \<^verbatim>\<open>action\<close> and
  \<^verbatim>\<open>quantity\<close> (\<open>None\<close> when the field is missing), the note (empty when missing) and the
  logged-in user. A view answers with a response and the messages it flashed.
\<close>

record stock_request =
  sr_method :: string
  sr_action :: "string option"
  sr_quantity :: "string option"
  sr_note :: string
  sr_user :: "user option"

datatype response = Redirect string | Render string | NotFound

datatype message =
    MsgSuccess string
  | MsgError string
  | MsgException string error   \<comment> \<open>\<^verbatim>\<open>messages.error(request, f"{prefix}{e}")\<close>\<close>

type_synonym answer = "response \<times> message list"

text \<open>The body of the \<^verbatim>\<open>with transaction.atomic():\<close> block.\<close>

definition update_stock_block ::
  "string \<Rightarrow> int \<Rightarrow> string \<Rightarrow> user option \<Rightarrow> pk \<Rightarrow> product \<Rightarrow> db \<Rightarrow> (error + answer) \<times> db" where
  "update_stock_block action qty note usr product_id product d =
     (let old = p_quantity product;
          record_and_answer = (\<lambda>product' trans_type trans_qty.
            let d1 = product_save product_id product' d;
                d2 = (if trans_qty \<noteq> 0
                      then stock_history_create product_id trans_type trans_qty note usr d1
                      else d1)
            in (Inr (Redirect ''inventory_list'', [MsgSuccess ''Stock updated!'']), d2))
      in if action = ''add''
         then record_and_answer (product\<lparr>p_quantity := p_quantity product + qty\<rparr>) ''IN'' qty
         else if action = ''remove''
         then (if qty > p_quantity product
               then (Inr (Redirect ''update_stock'',
                          [MsgError (''Only '' @ str_int (p_quantity product) @ '' in stock'')]), d)
               else record_and_answer (product\<lparr>p_quantity := p_quantity product - qty\<rparr>)
                      ''OUT'' (- qty))
         else if action = ''set''
         then record_and_answer (product\<lparr>p_quantity := qty\<rparr>) ''ADJ'' (qty - old)
         else (Inl (UnboundLocalError ''trans_qty''), product_save product_id product d))"

text \<open>The \<^verbatim>\<open>try:\<close> block of a POST request.\<close>

definition update_stock_post ::
  "stock_request \<Rightarrow> pk \<Rightarrow> product \<Rightarrow> db \<Rightarrow> (error + answer) \<times> db" where
  "update_stock_post request product_id product d =
     (case sr_action request of
        None \<Rightarrow> (Inl (MultiValueDictKeyError ''action''), d)
      | Some action \<Rightarrow>
          (case sr_quantity request of
             None \<Rightarrow> (Inl (MultiValueDictKeyError ''quantity''), d)
           | Some s \<Rightarrow>
               (case py_int s of
                  Inl e \<Rightarrow> (Inl e, d)
                | Inr qty \<Rightarrow>
                    if qty \<le> 0
                    then (Inr (Redirect ''update_stock'', [MsgError ''Quantity must be > 0'']), d)
                    else atomic isl
                           (update_stock_block action qty (sr_note request) (sr_user request)
                              product_id product) d)))"

definition update_stock :: "stock_request \<Rightarrow> pk \<Rightarrow> db \<Rightarrow> answer \<times> db" where
  "update_stock request product_id d =
     (case map_of (products d) product_id of
        None \<Rightarrow> ((NotFound, []), d)
      | Some product \<Rightarrow>
          if sr_method request = ''POST''
          then (case update_stock_post request product_id product d of
                  (Inl e, d') \<Rightarrow>
                    ((Render ''inventory/update_stock.html'', [MsgException ''Error: '' e]), d')
                | (Inr a, d') \<Rightarrow> (a, d'))
          else ((Render ''inventory/update_stock.html'', []), d))"

section \<open>Invoices (models.py, lines 65 to 171)\<close>

text \<open>\<^verbatim>\<open>InvoiceItem.line_total\<close>.\<close>

definition line_total :: "invoice_item \<Rightarrow> rat" where
  "line_total self = of_int (item_quantity self) * item_unit_price self"

text \<open>\<^verbatim>\<open>invoice.items.all()\<close> for the invoice stored under \<open>i\<close>, in the order of the table.\<close>

definition items_all :: "pk \<Rightarrow> db \<Rightarrow> invoice_item list" where
  "items_all i d = filter (\<lambda>item. item_invoice item = i) (map snd (items d))"

subsection \<open>\<^verbatim>\<open>Invoice._generate_invoice_number\<close> (lines 107 to 116)\<close>

definition generate_invoice_number :: "datetime \<Rightarrow> db \<Rightarrow> error + string" where
  "generate_invoice_number now d =
     (let today = strftime_Ymd now;
          prefix = ''INV-'' @ today @ ''-'';
          last = aggregate_max
                   (filter (\<lambda>n. startswith n prefix) (map (inv_invoice_number \<circ> snd) (invoices d)))
      in case last of
           None \<Rightarrow> Inr (prefix @ format_0d 4 1)
         | Some l \<Rightarrow>
             if l = [] then Inr (prefix @ format_0d 4 1)
             else (case py_int (last_segment l) of
                     Inl e \<Rightarrow> Inl e
                   | Inr n \<Rightarrow> Inr (prefix @ format_0d 4 (n + 1))))"

subsection \<open>\<^verbatim>\<open>Invoice.save\<close> (lines 85 to 106)\<close>

text \<open>
  The row written for an invoice: its four decimal columns hold two decimal places.
\<close>

definition invoice_row :: "invoice \<Rightarrow> invoice" where
  "invoice_row self =
     self\<lparr>inv_subtotal := quantize2 (inv_subtotal self),
          inv_tax_rate := quantize2 (inv_tax_rate self),
          inv_tax_amount := quantize2 (inv_tax_amount self),
          inv_total_amount := quantize2 (inv_total_amount self)\<rparr>"

text \<open>
  \<^verbatim>\<open>super().save()\<close>: an instance without primary key is inserted under a new one, an
  instance with a primary key replaces the row stored under it (or is inserted there).
  The instance leaves with its primary key set.
\<close>

definition model_save :: "invoice \<Rightarrow> db \<Rightarrow> pk \<times> invoice \<times> db" where
  "model_save self d =
     (let i = (case inv_pk self of None \<Rightarrow> fresh_pk (invoices d) | Some i \<Rightarrow> i);
          self' = self\<lparr>inv_pk := Some i\<rparr>
      in (i, self', d\<lparr>invoices := AList.update i (invoice_row self') (invoices d)\<rparr>))"

text \<open>
  \<^verbatim>\<open>Invoice.objects.filter(pk=i).update(subtotal=.., tax_amount=.., total_amount=..)\<close>.
\<close>

definition update_totals :: "pk \<Rightarrow> rat \<Rightarrow> rat \<Rightarrow> rat \<Rightarrow> db \<Rightarrow> db" where
  "update_totals i subtotal tax_amount total_amount d =
     d\<lparr>invoices := AList.map_entry i
          (\<lambda>row. row\<lparr>inv_subtotal := quantize2 subtotal,
                      inv_tax_amount := quantize2 tax_amount,
                      inv_total_amount := quantize2 total_amount\<rparr>) (invoices d)\<rparr>"

text \<open>
  A method of an invoice returns whether it raised, the instance as the method leaves it,
  and the database.
\<close>

type_synonym outcome = "(error + unit) \<times> invoice"

definition save :: "datetime \<Rightarrow> invoice \<Rightarrow> db \<Rightarrow> outcome \<times> db" where
  "save now self d =
     (case (if inv_invoice_number self = [] then generate_invoice_number now d
            else Inr (inv_invoice_number self)) of
        Inl e \<Rightarrow> ((Inl e, self), d)
      | Inr number \<Rightarrow>
          (case model_save (self\<lparr>inv_invoice_number := number\<rparr>) d of
             (i, self1, d1) \<Rightarrow>
               let subtotal = sum_list (map line_total (items_all i d1));
                   tax_rate_decimal = inv_tax_rate self1;
                   tax_amount = subtotal * (tax_rate_decimal / 100);
                   total_amount = subtotal + tax_amount;
                   self2 = self1\<lparr>inv_subtotal := subtotal, inv_tax_amount := tax_amount,
                                 inv_total_amount := total_amount\<rparr>
               in ((Inr (), self2), update_totals i subtotal tax_amount total_amount d1)))"

subsection \<open>\<^verbatim>\<open>Invoice.finalize_and_pay\<close> (lines 118 to 140)\<close>

text \<open>
  The loop over the line items. Each item reads its product from the database as it is
  when the item's turn comes, so a second item of the same product sees what the first
  one left. For an item that passes the check, \<open>sell\<close> is the rest of the loop body
  (lines 127 to 136): the product saved with the decremented quantity, and the ledger
  entry.
\<close>

definition sell :: "string \<Rightarrow> user option \<Rightarrow> invoice_item \<Rightarrow> product \<Rightarrow> db \<Rightarrow> db" where
  "sell number paid_by_user item product d =
     stock_history_create (item_product item) ''OUT'' (- item_quantity item)
       (''Sold via '' @ number) paid_by_user
       (product_save (item_product item)
          (product\<lparr>p_quantity := p_quantity product - item_quantity item\<rparr>) d)"

fun finalize_items ::
  "string \<Rightarrow> user option \<Rightarrow> invoice_item list \<Rightarrow> db \<Rightarrow> (error + unit) \<times> db" where
  "finalize_items number paid_by_user [] d = (Inr (), d)"
| "finalize_items number paid_by_user (item # rest) d =
     (case map_of (products d) (item_product item) of
        None \<Rightarrow> (Inl (DoesNotExist ''Product''), d)
      | Some product \<Rightarrow>
          if p_quantity product < item_quantity item
          then (Inl (ValueError (''Insufficient stock: '' @ p_name product)), d)
          else finalize_items number paid_by_user rest (sell number paid_by_user item product d))"

text \<open>The body of the \<^verbatim>\<open>with transaction.atomic():\<close> block.\<close>

definition finalize_block :: "invoice \<Rightarrow> user option \<Rightarrow> datetime \<Rightarrow> db \<Rightarrow> outcome \<times> db" where
  "finalize_block self paid_by_user now d =
     (case inv_pk self of
        None \<Rightarrow> ((Inl UnsavedInstance, self), d)
      | Some i \<Rightarrow>
          (case finalize_items (inv_invoice_number self) paid_by_user (items_all i d) d of
             (Inl e, d1) \<Rightarrow> ((Inl e, self), d1)
           | (Inr u, d1) \<Rightarrow>
               save now (self\<lparr>inv_is_paid := True, inv_paid_at := Some now\<rparr>) d1))"

definition finalize_and_pay :: "invoice \<Rightarrow> user option \<Rightarrow> datetime \<Rightarrow> db \<Rightarrow> outcome \<times> db" where
  "finalize_and_pay self paid_by_user now d =
     (if inv_is_paid self then ((Inr (), self), d)
      else atomic (\<lambda>r. isl (fst r)) (finalize_block self paid_by_user now) d)"

section \<open>The invoice page: \<^verbatim>\<open>view_invoice\<close> (views.py, lines 426 to 469)\<close>

text \<open>
  The request as the view reads it: which of the submit keys the POST data holds, the
  fields \<^verbatim>\<open>product\<close> and \<^verbatim>\<open>item_id\<close> as the primary keys they name (\<open>None\<close> when the
  field is missing), the field \<^verbatim>\<open>quantity\<close> as sent. An exception the view does not catch
  ends the request: the answer is \<open>Inl\<close> of it. A new line item is created with the
  product's selling price as its unit price (\<^verbatim>\<open>InvoiceItem.save\<close> would put the same
  price where none is given).
\<close>

record invoice_request =
  ir_method :: string
  ir_finalize :: bool
  ir_add_item :: bool
  ir_delete_item :: bool
  ir_product :: "pk option"
  ir_quantity :: "string option"
  ir_item_id :: "pk option"
  ir_user :: "user option"

text \<open>The last two lines of the POST branch: \<^verbatim>\<open>invoice.save()\<close> and the redirect.\<close>

definition save_and_redirect ::
  "datetime \<Rightarrow> invoice \<Rightarrow> message list \<Rightarrow> db \<Rightarrow> (error + answer) \<times> db" where
  "save_and_redirect now invoice msgs d =
     (case save now invoice d of
        ((Inl e, _), d') \<Rightarrow> (Inl e, d')
      | ((Inr u, _), d') \<Rightarrow> (Inr (Redirect ''view_invoice'', msgs), d'))"

definition view_invoice ::
  "invoice_request \<Rightarrow> pk \<Rightarrow> datetime \<Rightarrow> db \<Rightarrow> (error + answer) \<times> db" where
  "view_invoice request i now d =
     (case map_of (invoices d) i of
        None \<Rightarrow> (Inr (NotFound, []), d)
      | Some invoice \<Rightarrow>
          if ir_method request \<noteq> ''POST'' then (Inr (Render ''invoice/view_invoice.html'', []), d)
          else if ir_finalize request \<and> \<not> inv_is_paid invoice
          then (case finalize_and_pay invoice (ir_user request) now d of
                  ((Inr u, invoice'), d') \<Rightarrow>
                    (Inr (Redirect ''generate_receipt'',
                          [MsgSuccess (''Invoice #'' @ inv_invoice_number invoice' @ '' paid!'')]), d')
                | ((Inl e, invoice'), d') \<Rightarrow>
                    save_and_redirect now invoice' [MsgException [] e] d')
          else if ir_add_item request
          then (case ir_product request of
                  None \<Rightarrow> (Inl (MultiValueDictKeyError ''product''), d)
                | Some pid \<Rightarrow>
                    (case map_of (products d) pid of
                       None \<Rightarrow> (Inr (NotFound, []), d)
                     | Some p \<Rightarrow>
                         (case (case ir_quantity request of None \<Rightarrow> Inr 1 | Some s \<Rightarrow> py_int s) of
                            Inl e \<Rightarrow> (Inl e, d)
                          | Inr qty \<Rightarrow>
                              if p_quantity p < qty
                              then save_and_redirect now invoice
                                     [MsgError (''Only '' @ str_int (p_quantity p) @ '' in stock'')] d
                              else save_and_redirect now invoice [MsgSuccess ''Item added'']
                                     (d\<lparr>items := items d @
                                          [(fresh_pk (items d),
                                            \<lparr>item_invoice = i, item_product = pid,
                                             item_quantity = qty,
                                             item_unit_price = p_selling_price p\<rparr>)]\<rparr>))))
          else if ir_delete_item request
          then (case ir_item_id request of
                  None \<Rightarrow> (Inl (MultiValueDictKeyError ''item_id''), d)
                | Some iid \<Rightarrow>
                    (case map_of (items d) iid of
                       None \<Rightarrow> (Inr (NotFound, []), d)
                     | Some item \<Rightarrow>
                         if item_invoice item \<noteq> i then (Inr (NotFound, []), d)
                         else if inv_is_paid invoice
                         then save_and_redirect now invoice [MsgError ''Cannot edit paid invoice''] d
                         else (case map_of (products d) (item_product item) of
                                 None \<Rightarrow> (Inl (DoesNotExist ''Product''), d)
                               | Some p \<Rightarrow>
                                   save_and_redirect now invoice [MsgSuccess ''Item removed'']
                                     ((product_save (item_product item)
                                         (p\<lparr>p_quantity := p_quantity p + item_quantity item\<rparr>) d)
                                      \<lparr>items := AList.delete iid (items d)\<rparr>))))
          else save_and_redirect now invoice [] d)"

section \<open>Sequences of stock operations\<close>

text \<open>
  The operations that move stock: a request to \<^verbatim>\<open>update_stock\<close> for a product (its
  action \<^verbatim>\<open>add\<close>, \<^verbatim>\<open>remove\<close> or \<^verbatim>\<open>set\<close>), and \<^verbatim>\<open>finalize_and_pay\<close> called on a stored
  invoice. Each takes the database to the one it leaves, accepted or rejected.
\<close>

datatype operation =
    UpdateStock stock_request pk
  | FinalizeAndPay pk "user option" datetime

fun run_operation :: "db \<Rightarrow> operation \<Rightarrow> db" where
  "run_operation d (UpdateStock request product_id) = snd (update_stock request product_id d)"
| "run_operation d (FinalizeAndPay i paid_by_user now) =
     (case map_of (invoices d) i of
        None \<Rightarrow> d
      | Some invoice \<Rightarrow> snd (finalize_and_pay invoice paid_by_user now d))"

definition run_operations :: "db \<Rightarrow> operation list \<Rightarrow> db" where
  "run_operations d ops = foldl run_operation d ops"

section \<open>Notions used to state the properties\<close>

text \<open>What a list of line items asks of one product: the sum of their quantities.\<close>

definition demand :: "pk \<Rightarrow> invoice_item list \<Rightarrow> int" where
  "demand i its = sum_list (map item_quantity (filter (\<lambda>item. item_product item = i) its))"

text \<open>
  The stock of the database covers line item \<open>j\<close> of a list: the product of the item
  exists, and its quantity is at least what the items up to and including \<open>j\<close> ask of it.
\<close>

definition stock_covers :: "db \<Rightarrow> invoice_item list \<Rightarrow> nat \<Rightarrow> bool" where
  "stock_covers d its j =
     (case map_of (products d) (item_product (its ! j)) of
        None \<Rightarrow> False
      | Some p \<Rightarrow> demand (item_product (its ! j)) (take (Suc j) its) \<le> p_quantity p)"

text \<open>The ledger entry that finalization writes for a line item.\<close>

definition sale_entry :: "string \<Rightarrow> user option \<Rightarrow> invoice_item \<Rightarrow> stock_history" where
  "sale_entry number paid_by_user item =
     \<lparr>sh_product = item_product item, sh_transaction_type = ''OUT'',
      sh_quantity = - item_quantity item, sh_note = ''Sold via '' @ number,
      sh_created_by = paid_by_user\<rparr>"

text \<open>
  The prefix of the invoice numbers of a day, and the stored invoice numbers that start
  with it: the rows that \<^verbatim>\<open>_generate_invoice_number\<close> takes the maximum of.
\<close>

definition day_prefix :: "datetime \<Rightarrow> string" where
  "day_prefix now = ''INV-'' @ strftime_Ymd now @ ''-''"

definition numbers_of_day :: "datetime \<Rightarrow> db \<Rightarrow> string list" where
  "numbers_of_day now d =
     filter (\<lambda>n. startswith n (day_prefix now)) (map (inv_invoice_number \<circ> snd) (invoices d))"

text \<open>
  What a step from database \<open>d\<close> to database \<open>d'\<close> keeps of product \<open>i\<close>: the product
  is still there, its quantity is non-negative if it was, and the quantity has moved by
  exactly what the step added to the product's ledger.
\<close>

definition keeps :: "pk \<Rightarrow> db \<Rightarrow> db \<Rightarrow> bool" where
  "keeps i d d' =
     (\<forall>p. map_of (products d) i = Some p \<longrightarrow>
        (\<exists>p'. map_of (products d') i = Some p'
           \<and> (0 \<le> p_quantity p \<longrightarrow> 0 \<le> p_quantity p')
           \<and> p_quantity p' - ledger_sum i d' = p_quantity p - ledger_sum i d))"

text \<open>A decimal value with at most two decimal places: a whole number of hundredths.\<close>

definition two_places :: "rat \<Rightarrow> bool" where
  "two_places x = (of_int \<lfloor>x * 100\<rfloor> = x * 100)"

subsection \<open>Example data\<close>

definition example_now :: datetime where
  "example_now = \<lparr>dt_year = 2026, dt_month = 1, dt_day = 5, dt_seconds = 36000\<rparr>"

definition chlorine :: product where
  "chlorine = \<lparr>p_sku = ''POOL-001'', p_name = ''Chlorine'', p_quantity = 10, p_cost_price = 7,
      p_selling_price = 10, p_low_stock_threshold = 5, p_is_active = True\<rparr>"

definition brush :: product where
  "brush = \<lparr>p_sku = ''POOL-002'', p_name = ''Brush'', p_quantity = 6, p_cost_price = 3,
      p_selling_price = 5, p_low_stock_threshold = 5, p_is_active = True\<rparr>"

definition example_invoice :: invoice where
  "example_invoice = \<lparr>inv_pk = Some 1, inv_invoice_number = ''INV-20260105-0001'',
      inv_customer = None, inv_created_by = Some 1, inv_date_created = example_now,
      inv_subtotal = 0, inv_tax_rate = 15, inv_tax_amount = 0, inv_total_amount = 0,
      inv_is_paid = False, inv_paid_at = None, inv_notes = []\<rparr>"

definition line :: "pk \<Rightarrow> int \<Rightarrow> rat \<Rightarrow> invoice_item" where
  "line product_id qty price =
     \<lparr>item_invoice = 1, item_product = product_id, item_quantity = qty, item_unit_price = price\<rparr>"

text \<open>Invoice 1 with two chlorine at 10.00 and one brush at 5.00.\<close>

definition example_db :: db where
  "example_db = \<lparr>products = [(1, chlorine), (2, brush)], invoices = [(1, example_invoice)],
      items = [(1, line 1 2 10), (2, line 2 1 5)], stock_history = []\<rparr>"

text \<open>Invoice 1 with two lines of five brushes each, six brushes being in stock.\<close>

definition twice_db :: db where
  "twice_db = \<lparr>products = [(1, chlorine), (2, brush)], invoices = [(1, example_invoice)],
      items = [(1, line 2 5 5), (2, line 2 5 5)], stock_history = []\<rparr>"


text \<open>A day on which invoice 9999 has been issued.\<close>

definition busy_db :: db where
  "busy_db = \<lparr>products = [], invoices =
       [(1, example_invoice),
        (2, example_invoice\<lparr>inv_pk := Some 2, inv_invoice_number := ''INV-20260105-9999''\<rparr>)],
      items = [], stock_history = []\<rparr>"

definition stock_post :: "string \<Rightarrow> string \<Rightarrow> stock_request" where
  "stock_post action quantity =
     \<lparr>sr_method = ''POST'', sr_action = Some action, sr_quantity = Some quantity,
      sr_note = ''count'', sr_user = Some 1\<rparr>"

definition delete_item_post :: "pk \<Rightarrow> invoice_request" where
  "delete_item_post item_id =
     \<lparr>ir_method = ''POST'', ir_finalize = False, ir_add_item = False, ir_delete_item = True,
      ir_product = None, ir_quantity = None, ir_item_id = Some item_id, ir_user = Some 1\<rparr>"

section \<open>Evaluation of the primitives\<close>


lemma py_int_digits_3: "py_int ''3'' = Inr 3"
  by code_simp


lemma py_int_digits_20: "py_int ''20'' = Inr 20"
  by code_simp

lemma str_int_10: "str_int 10 = ''10''"
  by code_simp

lemmas update_stock_defs =
  update_stock_def update_stock_post_def update_stock_block_def atomic_def
  product_save_def stock_history_create_def Let_def

section \<open>Ledger entries: the sign of the stored quantity\<close>




section \<open>Stock operations\<close>

text \<open>
  Claim C7. A POST to \<^verbatim>\<open>update_stock\<close> with the action \<^verbatim>\<open>remove\<close> and the amount \<open>n\<close>,
  for a product with quantity \<open>q\<close>: when \<open>0 < n \<le> q\<close> the request succeeds, the product
  is stored with quantity \<open>q - n\<close> and exactly one entry is appended to the ledger, of kind
  OUT with quantity \<open>-n\<close>; when \<open>n > q\<close> the request is rejected with the message
  that only \<open>q\<close> are in stock, and the database (quantity and ledger) is unchanged.
\<close>

theorem remove_stock:
  assumes "map_of (products d) i = Some p" and "0 \<le> p_quantity p"
    and "sr_method r = ''POST''" and "sr_action r = Some ''remove''"
    and "sr_quantity r = Some s" and "py_int s = Inr n"
  shows "(0 < n \<and> n \<le> p_quantity p \<longrightarrow>
           update_stock r i d =
             ((Redirect ''inventory_list'', [MsgSuccess ''Stock updated!'']),
              d\<lparr>products := AList.update i (p\<lparr>p_quantity := p_quantity p - n\<rparr>) (products d),
                stock_history := stock_history d @
                  [\<lparr>sh_product = i, sh_transaction_type = ''OUT'', sh_quantity = - n,
                    sh_note = sr_note r, sh_created_by = sr_user r\<rparr>]\<rparr>))
       \<and> (p_quantity p < n \<longrightarrow>
           update_stock r i d =
             ((Redirect ''update_stock'',
               [MsgError (''Only '' @ str_int (p_quantity p) @ '' in stock'')]), d))"
  using assms by (simp add: update_stock_defs)

theorem remove_stock_witness:
  "update_stock (stock_post ''remove'' ''3'') 1 example_db =
     ((Redirect ''inventory_list'', [MsgSuccess ''Stock updated!'']),
      example_db\<lparr>products := [(1, chlorine\<lparr>p_quantity := 7\<rparr>), (2, brush)],
        stock_history := [\<lparr>sh_product = 1, sh_transaction_type = ''OUT'', sh_quantity = - 3,
                           sh_note = ''count'', sh_created_by = Some 1\<rparr>]\<rparr>)
   \<and> update_stock (stock_post ''remove'' ''20'') 1 example_db =
       ((Redirect ''update_stock'', [MsgError ''Only 10 in stock'']), example_db)"
  using remove_stock [of example_db 1 chlorine "stock_post ''remove'' ''3''" "''3''" 3]
    remove_stock [of example_db 1 chlorine "stock_post ''remove'' ''20''" "''20''" 20]
  by (simp add: example_db_def chlorine_def stock_post_def py_int_digits_3 py_int_digits_20
      str_int_10)




section \<open>Finalization of an invoice\<close>

text \<open>
  Claim C4. \<^verbatim>\<open>finalize_and_pay\<close> on an invoice that is already paid returns without
  raising and changes nothing: the database (every product quantity, the ledger, the
  line items, the stored invoice) and the invoice instance with all its fields,
  \<open>paid_at\<close> included, are as before.
\<close>

theorem finalize_paid_noop:
  "inv_is_paid self \<Longrightarrow> finalize_and_pay self paid_by_user now d = ((Inr (), self), d)"
  by (simp add: finalize_and_pay_def)

theorem finalize_paid_noop_witness:
  "inv_is_paid (example_invoice\<lparr>inv_is_paid := True, inv_paid_at := Some example_now\<rparr>)
   \<and> finalize_and_pay (example_invoice\<lparr>inv_is_paid := True, inv_paid_at := Some example_now\<rparr>)
        (Some 1) example_now example_db
      = ((Inr (), example_invoice\<lparr>inv_is_paid := True, inv_paid_at := Some example_now\<rparr>),
         example_db)"
  using finalize_paid_noop [of
      "example_invoice\<lparr>inv_is_paid := True, inv_paid_at := Some example_now\<rparr>"
      "Some 1" example_now example_db]
  by simp

subsection \<open>The loop over the line items, and the save that follows it\<close>

lemma map_of_product_save:
  "map_of (products (product_save i p d)) j = (if j = i then Some p else map_of (products d) j)"
  by (simp add: product_save_def update_conv')

lemma products_stock_history_create [simp]:
  "products (stock_history_create i t q n u d) = products d"
  by (simp add: stock_history_create_def)

lemma demand_Cons:
  "demand i (item # its) = (if item_product item = i then item_quantity item else 0) + demand i its"
  by (simp add: demand_def)

lemma demand_Nil [simp]: "demand i [] = 0"
  by (simp add: demand_def)

lemma map_of_sell:
  "map_of (products (sell n u item p d)) j =
     (if j = item_product item then Some (p\<lparr>p_quantity := p_quantity p - item_quantity item\<rparr>)
      else map_of (products d) j)"
  by (simp add: sell_def map_of_product_save)

lemma sell_other [simp]:
  "invoices (sell n u item p d) = invoices d"
  "items (sell n u item p d) = items d"
  "stock_history (sell n u item p d) = stock_history d @ [sale_entry n u item]"
  by (simp_all add: sell_def stock_history_create_def product_save_def sale_entry_def)

lemma stock_covers_0:
  "stock_covers d (item # rest) 0 =
     (case map_of (products d) (item_product item) of None \<Rightarrow> False
      | Some p \<Rightarrow> item_quantity item \<le> p_quantity p)"
  by (simp add: stock_covers_def demand_Cons split: option.splits)

lemma stock_covers_Suc:
  assumes "map_of (products d) (item_product item) = Some p"
  shows "stock_covers (sell n u item p d) rest j = stock_covers d (item # rest) (Suc j)"
  using assms
  by (auto simp: stock_covers_def map_of_sell demand_Cons split: option.splits)

lemma finalize_items_covered:
  assumes "\<forall>j < length its. stock_covers d its j"
  shows "\<exists>d'. finalize_items n u its d = (Inr (), d')
     \<and> (\<forall>i. map_of (products d') i =
           map_option (\<lambda>p. p\<lparr>p_quantity := p_quantity p - demand i its\<rparr>) (map_of (products d) i))
     \<and> stock_history d' = stock_history d @ map (sale_entry n u) its
     \<and> invoices d' = invoices d \<and> items d' = items d"
  using assms
proof (induction its arbitrary: d)
  case Nil
  show ?case by (simp add: option.map_ident)
next
  case (Cons item rest)
  from Cons.prems have "stock_covers d (item # rest) 0" by auto
  then obtain p where p: "map_of (products d) (item_product item) = Some p"
    and enough: "item_quantity item \<le> p_quantity p"
    by (auto simp: stock_covers_0 split: option.splits)
  let ?d1 = "sell n u item p d"
  have "\<forall>j < length rest. stock_covers ?d1 rest j"
    using Cons.prems by (auto simp: stock_covers_Suc [OF p])
  from Cons.IH [OF this] obtain d' where
    run: "finalize_items n u rest ?d1 = (Inr (), d')"
    and prods: "\<And>i. map_of (products d') i =
           map_option (\<lambda>p. p\<lparr>p_quantity := p_quantity p - demand i rest\<rparr>) (map_of (products ?d1) i)"
    and hist: "stock_history d' = stock_history ?d1 @ map (sale_entry n u) rest"
    and rest: "invoices d' = invoices ?d1" "items d' = items ?d1"
    by blast
  have "finalize_items n u (item # rest) d = (Inr (), d')"
    using p enough run by simp
  moreover have "map_of (products d') i =
      map_option (\<lambda>p. p\<lparr>p_quantity := p_quantity p - demand i (item # rest)\<rparr>) (map_of (products d) i)" for i
    using p by (simp add: prods map_of_sell demand_Cons)
  ultimately show ?case using hist rest by simp
qed

lemma finalize_items_fails:
  assumes "k < length its" and "\<forall>j < k. stock_covers d its j"
    and "map_of (products d) (item_product (its ! k)) = Some p"
    and "\<not> stock_covers d its k"
  shows "fst (finalize_items n u its d) = Inl (ValueError (''Insufficient stock: '' @ p_name p))"
  using assms
proof (induction its arbitrary: d k p)
  case Nil
  then show ?case by simp
next
  case (Cons item rest)
  show ?case
  proof (cases k)
    case 0
    with Cons.prems show ?thesis by (simp add: stock_covers_0)
  next
    case (Suc k')
    with Cons.prems have "stock_covers d (item # rest) 0" by auto
    then obtain q where q: "map_of (products d) (item_product item) = Some q"
      and enough: "item_quantity item \<le> p_quantity q"
      by (auto simp: stock_covers_0 split: option.splits)
    let ?d1 = "sell n u item q d"
    have k': "k' < length rest" using Cons.prems Suc by simp
    have before: "\<forall>j < k'. stock_covers ?d1 rest j"
      using Cons.prems Suc by (auto simp: stock_covers_Suc [OF q])
    have fails: "\<not> stock_covers ?d1 rest k'"
      using Cons.prems Suc by (simp add: stock_covers_Suc [OF q])
    obtain p1 where p1: "map_of (products ?d1) (item_product (rest ! k')) = Some p1"
      and name: "p_name p1 = p_name p"
      using Cons.prems(3) Suc q
      by (cases "item_product (rest ! k') = item_product item") (auto simp: map_of_sell)
    from Cons.IH [OF k' before p1 fails] name q enough
    show ?thesis by simp
  qed
qed

lemma map_of_update_totals:
  "map_of (invoices (update_totals i a b c d)) j =
     (if j = i
      then map_option (\<lambda>row. row\<lparr>inv_subtotal := quantize2 a, inv_tax_amount := quantize2 b,
                                   inv_total_amount := quantize2 c\<rparr>) (map_of (invoices d) i)
      else map_of (invoices d) j)"
  by (simp add: update_totals_def map_of_map_entry split: option.splits)

lemma update_totals_frame [simp]:
  "products (update_totals i a b c d) = products d"
  "items (update_totals i a b c d) = items d"
  "stock_history (update_totals i a b c d) = stock_history d"
  by (simp_all add: update_totals_def)

lemma items_all_invoices [simp]: "items_all i (d\<lparr>invoices := x\<rparr>) = items_all i d"
  by (simp add: items_all_def)

lemma save_numbered:
  assumes "inv_invoice_number self \<noteq> []" and "inv_pk self = Some i"
  shows "\<exists>self' d'. save now self d = ((Inr (), self'), d')
     \<and> products d' = products d \<and> items d' = items d \<and> stock_history d' = stock_history d
     \<and> inv_pk self' = Some i \<and> inv_invoice_number self' = inv_invoice_number self
     \<and> inv_is_paid self' = inv_is_paid self \<and> inv_paid_at self' = inv_paid_at self
     \<and> (\<exists>row. map_of (invoices d') i = Some row \<and> inv_is_paid row = inv_is_paid self
            \<and> inv_paid_at row = inv_paid_at self)"
  using assms
  by (simp add: save_def model_save_def Let_def map_of_update_totals update_conv' invoice_row_def)

lemma items_all_twice: "items_all (Suc 0) twice_db = [line 2 5 5, line 2 5 5]"
  by (simp add: items_all_def twice_db_def line_def)

lemma items_all_example: "items_all (Suc 0) example_db = [line 1 2 10, line 2 1 5]"
  by (simp add: items_all_def example_db_def line_def)

lemma finalize_items_twice:
  "fst (finalize_items n u [line 2 5 5, line 2 5 5] twice_db) =
     Inl (ValueError ''Insufficient stock: Brush'')"
  by (simp add: twice_db_def line_def brush_def sell_def product_save_def
      stock_history_create_def)

text \<open>
  Claim C1. Let \<open>self\<close> be an unpaid invoice with the line items \<open>items_all i d\<close>. If the
  stock covers the items before position \<open>k\<close> and not the item at position \<open>k\<close> (its
  quantity exceeds what the earlier items of the invoice leave of product \<open>p\<close>), then
  \<^verbatim>\<open>finalize_and_pay\<close> raises the error \<^verbatim>\<open>Insufficient stock\<close> that names \<open>p\<close>, and
  the database it leaves is the database it found: no product quantity has changed, no
  ledger entry exists for any item (those before \<open>k\<close> included), the stored invoice is
  unpaid; the invoice instance is unchanged too.
\<close>

theorem finalize_and_pay_insufficient_stock:
  assumes "\<not> inv_is_paid self" and "inv_pk self = Some i"
    and "k < length (items_all i d)"
    and "\<forall>j < k. stock_covers d (items_all i d) j"
    and "map_of (products d) (item_product (items_all i d ! k)) = Some p"
    and "\<not> stock_covers d (items_all i d) k"
  shows "finalize_and_pay self paid_by_user now d =
     ((Inl (ValueError (''Insufficient stock: '' @ p_name p)), self), d)"
proof -
  obtain r d1 where run: "finalize_items (inv_invoice_number self) paid_by_user (items_all i d) d = (r, d1)"
    by (cases "finalize_items (inv_invoice_number self) paid_by_user (items_all i d) d")
  with finalize_items_fails [OF assms(3-6), of "inv_invoice_number self" paid_by_user]
  have "r = Inl (ValueError (''Insufficient stock: '' @ p_name p))" by simp
  with run assms(1,2) show ?thesis
    by (simp add: finalize_and_pay_def atomic_def finalize_block_def)
qed

theorem finalize_and_pay_insufficient_stock_witness:
  "finalize_and_pay example_invoice (Some 1) example_now twice_db =
     ((Inl (ValueError ''Insufficient stock: Brush''), example_invoice), twice_db)"
  using finalize_and_pay_insufficient_stock [of example_invoice 1 1 twice_db brush "Some 1" example_now]
  by (simp add: items_all_twice stock_covers_def demand_def)
     (simp add: twice_db_def line_def brush_def example_invoice_def)

text \<open>
  Claim C2, as amended. Let \<open>self\<close> be an unpaid, numbered invoice. If the stock covers
  every line item, that is, each item's product has at least the quantity that this item
  and the invoice's earlier items of the same product ask together, then
  \<^verbatim>\<open>finalize_and_pay\<close> succeeds: every product is stored with its quantity less the
  quantities of the invoice's items for it, the ledger is extended by exactly one entry
  per line item, in their order, of kind OUT with the negated item quantity, the note
  \<^verbatim>\<open>Sold via\<close> and the invoice number, and the acting user; the invoice instance and
  the stored invoice are paid, with \<open>paid_at\<close> the current time.
\<close>

theorem finalize_and_pay_succeeds:
  assumes "\<not> inv_is_paid self" and "inv_pk self = Some i" and "inv_invoice_number self \<noteq> []"
    and "\<forall>j < length (items_all i d). stock_covers d (items_all i d) j"
  shows "\<exists>self' d'. finalize_and_pay self paid_by_user now d = ((Inr (), self'), d')
     \<and> (\<forall>k. map_of (products d') k =
           map_option (\<lambda>p. p\<lparr>p_quantity := p_quantity p - demand k (items_all i d)\<rparr>)
             (map_of (products d) k))
     \<and> stock_history d' = stock_history d
          @ map (sale_entry (inv_invoice_number self) paid_by_user) (items_all i d)
     \<and> items d' = items d
     \<and> inv_is_paid self' \<and> inv_paid_at self' = Some now
     \<and> (\<exists>row. map_of (invoices d') i = Some row \<and> inv_is_paid row \<and> inv_paid_at row = Some now)"
proof -
  let ?its = "items_all i d"
  let ?n = "inv_invoice_number self"
  from finalize_items_covered [OF assms(4), of ?n paid_by_user] obtain d1 where
    run: "finalize_items ?n paid_by_user ?its d = (Inr (), d1)"
    and prods: "\<And>k. map_of (products d1) k =
           map_option (\<lambda>p. p\<lparr>p_quantity := p_quantity p - demand k ?its\<rparr>) (map_of (products d) k)"
    and hist: "stock_history d1 = stock_history d @ map (sale_entry ?n paid_by_user) ?its"
    and frame: "invoices d1 = invoices d" "items d1 = items d"
    by blast
  let ?paid = "self\<lparr>inv_is_paid := True, inv_paid_at := Some now\<rparr>"
  have "inv_invoice_number ?paid \<noteq> []" "inv_pk ?paid = Some i"
    using assms by simp_all
  from save_numbered [OF this, of now d1] obtain self' d' where
    sv: "save now ?paid d1 = ((Inr (), self'), d')"
    and sv_frame: "products d' = products d1" "items d' = items d1"
      "stock_history d' = stock_history d1"
    and sv_self: "inv_is_paid self'" "inv_paid_at self' = Some now"
    and sv_row: "\<exists>row. map_of (invoices d') i = Some row \<and> inv_is_paid row
            \<and> inv_paid_at row = Some now"
    by auto
  have "finalize_and_pay self paid_by_user now d = ((Inr (), self'), d')"
    using assms(1,2) run sv by (simp add: finalize_and_pay_def atomic_def finalize_block_def)
  then show ?thesis
    using prods hist frame sv_frame sv_self sv_row by simp
qed

theorem finalize_and_pay_succeeds_witness:
  "\<exists>self' d'. finalize_and_pay example_invoice (Some 1) example_now example_db = ((Inr (), self'), d')
     \<and> map_of (products d') 1 = Some (chlorine\<lparr>p_quantity := 8\<rparr>)
     \<and> map_of (products d') 2 = Some (brush\<lparr>p_quantity := 5\<rparr>)
     \<and> stock_history d' =
          [\<lparr>sh_product = 1, sh_transaction_type = ''OUT'', sh_quantity = - 2,
            sh_note = ''Sold via INV-20260105-0001'', sh_created_by = Some 1\<rparr>,
           \<lparr>sh_product = 2, sh_transaction_type = ''OUT'', sh_quantity = - 1,
            sh_note = ''Sold via INV-20260105-0001'', sh_created_by = Some 1\<rparr>]
     \<and> inv_is_paid self' \<and> inv_paid_at self' = Some example_now"
proof -
  have covered: "\<forall>j < length (items_all 1 example_db). stock_covers example_db (items_all 1 example_db) j"
    by (simp add: items_all_example less_Suc_eq stock_covers_def)
       (simp add: example_db_def line_def chlorine_def brush_def demand_def)
  have "\<not> inv_is_paid example_invoice" "inv_pk example_invoice = Some 1"
    "inv_invoice_number example_invoice \<noteq> []"
    by (simp_all add: example_invoice_def)
  from finalize_and_pay_succeeds [OF this covered, of "Some 1" example_now]
  obtain self' d' where
    "finalize_and_pay example_invoice (Some 1) example_now example_db = ((Inr (), self'), d')"
    "\<And>k. map_of (products d') k =
           map_option (\<lambda>p. p\<lparr>p_quantity := p_quantity p - demand k (items_all 1 example_db)\<rparr>)
             (map_of (products example_db) k)"
    "stock_history d' = stock_history example_db
          @ map (sale_entry (inv_invoice_number example_invoice) (Some 1)) (items_all 1 example_db)"
    "inv_is_paid self'" "inv_paid_at self' = Some example_now"
    by blast
  then show ?thesis
    by (simp add: items_all_example sale_entry_def)
       (simp add: example_db_def line_def chlorine_def brush_def example_invoice_def demand_def)
qed

text \<open>
  The claim as stated asks of each line item only that its product has the item's
  quantity. An invoice with two lines of five brushes each, six brushes being in stock,
  meets that, and its finalization fails at the second line.
\<close>

theorem same_product_twice_counterexample:
  "items_all 1 twice_db = [line 2 5 5, line 2 5 5]
   \<and> map_of (products twice_db) 2 = Some brush
   \<and> item_product (line 2 5 5) = 2 \<and> item_quantity (line 2 5 5) \<le> p_quantity brush
   \<and> \<not> inv_is_paid example_invoice
   \<and> finalize_and_pay example_invoice (Some 1) example_now twice_db =
       ((Inl (ValueError ''Insufficient stock: Brush''), example_invoice), twice_db)"
proof -
  have inv: "inv_pk example_invoice = Some (Suc 0)" "\<not> inv_is_paid example_invoice"
    by (simp_all add: example_invoice_def)
  obtain r d1 where run: "finalize_items (inv_invoice_number example_invoice) (Some 1)
      (items_all (Suc 0) twice_db) twice_db = (r, d1)"
    by (cases "finalize_items (inv_invoice_number example_invoice) (Some 1)
      (items_all (Suc 0) twice_db) twice_db")
  with finalize_items_twice [of "inv_invoice_number example_invoice" "Some 1"]
  have "r = Inl (ValueError ''Insufficient stock: Brush'')"
    by (simp add: items_all_twice del: finalize_items.simps)
  with run inv have "finalize_and_pay example_invoice (Some 1) example_now twice_db =
       ((Inl (ValueError ''Insufficient stock: Brush''), example_invoice), twice_db)"
    by (simp add: finalize_and_pay_def atomic_def finalize_block_def)
  moreover have "map_of (products twice_db) 2 = Some brush"
    by (simp add: twice_db_def)
  moreover have "item_product (line 2 5 5) = 2" "item_quantity (line 2 5 5) \<le> p_quantity brush"
    by (simp_all add: line_def brush_def)
  ultimately show ?thesis
    using items_all_twice inv by simp
qed

section \<open>Invoice totals\<close>

subsection \<open>Two decimal places\<close>



lemma quantize2_nearest:
  "two_places (quantize2 x) \<and> \<bar>quantize2 x - x\<bar> \<le> 1 / 200"
proof -
  define y where "y = x * 100"
  define f where "f = \<lfloor>y\<rfloor>"
  define c where "c = (if y - of_int f < 1 / 2 then f else if 1 / 2 < y - of_int f then f + 1
                 else if even f then f else f + 1)"
  have q: "quantize2 x = of_int c / 100"
    by (simp add: quantize2_def Let_def c_def f_def y_def)
  have f: "of_int f \<le> y" "y < of_int f + 1"
    by (simp_all add: f_def) linarith
  have "\<bar>of_int c - y\<bar> \<le> 1 / 2"
    using f by (auto simp: c_def)
  then have "\<bar>of_int c / 100 - x\<bar> \<le> 1 / 200"
    by (simp add: y_def field_simps abs_le_iff)
  moreover have "two_places (of_int c / 100)"
    by (simp add: two_places_def)
  ultimately show ?thesis
    unfolding q by blast
qed



lemma items_all_update_totals [simp]: "items_all i (update_totals j a b c d) = items_all i d"
  by (simp add: items_all_def)







section \<open>Invariants of the stock\<close>

lemma ledger_sum_create:
  "ledger_sum j (stock_history_create i t q n u d) = ledger_sum j d + (if i = j then q else 0)"
  by (simp add: ledger_sum_def stock_history_create_def)

lemma ledger_sum_product_save [simp]: "ledger_sum j (product_save i p d) = ledger_sum j d"
  by (simp add: ledger_sum_def product_save_def)

lemma ledger_sum_sell:
  "ledger_sum j (sell n u item p d) =
     ledger_sum j d - (if item_product item = j then item_quantity item else 0)"
  by (simp add: sell_def ledger_sum_create)

lemma keeps_refl [simp]: "keeps i d d"
  by (simp add: keeps_def)

lemma keeps_trans: "keeps i d d1 \<Longrightarrow> keeps i d1 d2 \<Longrightarrow> keeps i d d2"
  unfolding keeps_def by fastforce

lemma keeps_sell:
  assumes "map_of (products d) (item_product item) = Some p"
    and "\<not> p_quantity p < item_quantity item"
  shows "keeps i d (sell n u item p d)"
  using assms by (auto simp: keeps_def map_of_sell ledger_sum_sell)

lemma keeps_finalize_items: "keeps i d (snd (finalize_items n u its d))"
proof (induction its arbitrary: d)
  case Nil
  show ?case by simp
next
  case (Cons item rest)
  show ?case
  proof (cases "map_of (products d) (item_product item)")
    case None
    then show ?thesis by simp
  next
    case (Some p)
    show ?thesis
    proof (cases "p_quantity p < item_quantity item")
      case True
      with Some show ?thesis by simp
    next
      case False
      from keeps_sell [OF Some False] Cons.IH [of "sell n u item p d"]
      have "keeps i d (snd (finalize_items n u rest (sell n u item p d)))"
        by (rule keeps_trans)
      with Some False show ?thesis by simp
    qed
  qed
qed

lemma save_frame:
  "products (snd (save now self d)) = products d"
  "stock_history (snd (save now self d)) = stock_history d"
  "items (snd (save now self d)) = items d"
  by (simp_all add: save_def model_save_def Let_def split: sum.splits)

lemma keeps_frame:
  "products d' = products d \<Longrightarrow> stock_history d' = stock_history d \<Longrightarrow> keeps i d d'"
  by (simp add: keeps_def ledger_sum_def)

lemma keeps_finalize_and_pay: "keeps i d (snd (finalize_and_pay self u now d))"
proof (cases "inv_is_paid self \<or> inv_pk self = None")
  case True
  then show ?thesis
    by (auto simp: finalize_and_pay_def atomic_def finalize_block_def)
next
  case False
  then obtain k where k: "inv_pk self = Some k" and unpaid: "\<not> inv_is_paid self"
    by auto
  obtain r d1 where run: "finalize_items (inv_invoice_number self) u (items_all k d) d = (r, d1)"
    by (cases "finalize_items (inv_invoice_number self) u (items_all k d) d")
  have d1: "keeps i d d1"
    using keeps_finalize_items [of i d "inv_invoice_number self" u "items_all k d"] run by simp
  show ?thesis
  proof (cases r)
    case (Inl e)
    with run k unpaid show ?thesis
      by (simp add: finalize_and_pay_def atomic_def finalize_block_def)
  next
    case (Inr u')
    let ?sv = "save now (self\<lparr>inv_is_paid := True, inv_paid_at := Some now\<rparr>) d1"
    have "keeps i d1 (snd ?sv)"
      by (rule keeps_frame) (simp_all add: save_frame)
    with d1 have "keeps i d (snd ?sv)"
      by (rule keeps_trans)
    with Inr run k unpaid show ?thesis
      by (auto simp: finalize_and_pay_def atomic_def finalize_block_def split: prod.splits)
  qed
qed

lemma keeps_update_stock_block:
  "keeps i d (snd (update_stock_block a q n u j p d))"
  if "map_of (products d) j = Some p" and "0 < q"
  using that
  by (auto simp: keeps_def update_stock_block_def Let_def map_of_product_save ledger_sum_create)

lemma snd_atomic:
  "snd (atomic raised block d) = (if raised (fst (block d)) then d else snd (block d))"
  by (simp add: atomic_def split: prod.splits)

lemma keeps_update_stock_post:
  "map_of (products d) j = Some p \<Longrightarrow> keeps i d (snd (update_stock_post r j p d))"
  by (auto simp: update_stock_post_def snd_atomic keeps_update_stock_block
      split: option.splits sum.splits)

lemma keeps_update_stock: "keeps i d (snd (update_stock r j d))"
proof (cases "map_of (products d) j")
  case None
  then show ?thesis by (simp add: update_stock_def)
next
  case (Some p)
  from keeps_update_stock_post [OF this, of i r] Some show ?thesis
    by (auto simp: update_stock_def split: prod.splits sum.splits)
qed

lemma keeps_run_operation: "keeps i d (run_operation d op)"
  by (cases op) (auto simp: keeps_finalize_and_pay keeps_update_stock split: option.splits)

lemma keeps_run_operations: "keeps i d (run_operations d ops)"
  unfolding run_operations_def
proof (induction ops arbitrary: d)
  case Nil
  show ?case by simp
next
  case (Cons op ops)
  from keeps_run_operation [of i d op] Cons.IH [of "run_operation d op"]
  show ?case by (simp add: keeps_trans)
qed

text \<open>
  Claim C5. A product whose quantity is non-negative keeps a non-negative quantity
  through every sequence of stock operations (requests to \<^verbatim>\<open>update_stock\<close> of any
  action, among them add, remove and set, and finalizations of invoices): each operation
  is either rejected, leaving the quantity as it is, or leaves a non-negative quantity.
\<close>

theorem quantity_never_negative:
  assumes "map_of (products d) i = Some p" and "0 \<le> p_quantity p"
  shows "\<exists>p'. map_of (products (run_operations d ops)) i = Some p' \<and> 0 \<le> p_quantity p'"
  using keeps_run_operations [of i d ops] assms by (auto simp: keeps_def)

theorem quantity_never_negative_witness:
  "map_of (products example_db) 1 = Some chlorine \<and> 0 \<le> p_quantity chlorine
   \<and> (\<exists>p'. map_of (products (run_operations example_db
          [UpdateStock (stock_post ''remove'' ''3'') 1,
           UpdateStock (stock_post ''remove'' ''20'') 1,
           UpdateStock (stock_post ''set'' ''0'') 1,
           FinalizeAndPay 1 (Some 1) example_now])) 1 = Some p' \<and> 0 \<le> p_quantity p')"
  using quantity_never_negative [of example_db 1 chlorine
          "[UpdateStock (stock_post ''remove'' ''3'') 1,
           UpdateStock (stock_post ''remove'' ''20'') 1,
           UpdateStock (stock_post ''set'' ''0'') 1,
           FinalizeAndPay 1 (Some 1) example_now]"]
  by (simp add: example_db_def chlorine_def)

text \<open>
  Through the same sequences a product's quantity moves by exactly the sum of the ledger
  entries written for it: every stock operation that changes a quantity records the
  change.
\<close>

lemma ledger_reconciles_stock_operations:
  assumes "map_of (products d) i = Some p"
  shows "\<exists>p'. map_of (products (run_operations d ops)) i = Some p'
    \<and> p_quantity p' = p_quantity p + (ledger_sum i (run_operations d ops) - ledger_sum i d)"
  using keeps_run_operations [of i d ops] assms by (auto simp: keeps_def)

lemma save_and_redirect_frame:
  "products (snd (save_and_redirect now v msgs d)) = products d"
  "stock_history (snd (save_and_redirect now v msgs d)) = stock_history d"
  using save_frame(1,2) [of now v d]
  by (auto simp: save_and_redirect_def split: prod.splits sum.splits)

lemma view_invoice_delete_item:
  assumes "map_of (invoices d) i = Some v" and "\<not> inv_is_paid v"
    and "ir_method r = ''POST''" and "\<not> ir_finalize r" and "\<not> ir_add_item r"
    and "ir_delete_item r" and "ir_item_id r = Some k"
    and "map_of (items d) k = Some item" and "item_invoice item = i"
    and "map_of (products d) (item_product item) = Some p"
  shows "products (snd (view_invoice r i now d)) =
           AList.update (item_product item) (p\<lparr>p_quantity := p_quantity p + item_quantity item\<rparr>)
             (products d)"
    and "stock_history (snd (view_invoice r i now d)) = stock_history d"
  using assms
  by (simp_all add: view_invoice_def save_and_redirect_frame product_save_def)

text \<open>
  Claim C6. The quantity of a product is its initial quantity plus the sum of its
  ledger entries after any sequence of stock operations, the removal of an invoice item
  among them. The removal of a line item from an unpaid invoice (the \<^verbatim>\<open>delete_item\<close>
  branch of \<^verbatim>\<open>view_invoice\<close>) adds the item's quantity to the product and writes no
  ledger entry: a product with quantity 10 and an empty ledger, of which an unpaid
  invoice holds a line of 2, has quantity 12 and still an empty ledger once the line is
  removed.
\<close>

theorem item_removal_unreconciled:
  "map_of (products example_db) 1 = Some chlorine \<and> p_quantity chlorine = 10
   \<and> ledger_sum 1 example_db = 0
   \<and> map_of (products (snd (view_invoice (delete_item_post 1) 1 example_now example_db))) 1
       = Some (chlorine\<lparr>p_quantity := 12\<rparr>)
   \<and> ledger_sum 1 (snd (view_invoice (delete_item_post 1) 1 example_now example_db)) = 0"
proof -
  have a: "map_of (invoices example_db) 1 = Some example_invoice"
    "map_of (items example_db) 1 = Some (line 1 2 10)"
    "map_of (products example_db) (item_product (line 1 2 10)) = Some chlorine"
    by (simp_all add: example_db_def line_def)
  have b: "\<not> inv_is_paid example_invoice" "item_invoice (line 1 2 10) = 1"
    by (simp_all add: example_invoice_def line_def)
  have c: "ir_method (delete_item_post 1) = ''POST''" "\<not> ir_finalize (delete_item_post 1)"
    "\<not> ir_add_item (delete_item_post 1)" "ir_delete_item (delete_item_post 1)"
    "ir_item_id (delete_item_post 1) = Some 1"
    by (simp_all add: delete_item_post_def)
  note v = view_invoice_delete_item [OF a(1) b(1) c a(2) b(2) a(3), of example_now]
  have "products (snd (view_invoice (delete_item_post 1) 1 example_now example_db))
      = [(1, chlorine\<lparr>p_quantity := 12\<rparr>), (2, brush)]"
    unfolding v by (simp add: example_db_def line_def chlorine_def)
  moreover have "ledger_sum 1 (snd (view_invoice (delete_item_post 1) 1 example_now example_db)) = 0"
    unfolding ledger_sum_def v by (simp add: example_db_def)
  ultimately show ?thesis
    by (simp add: example_db_def chlorine_def ledger_sum_def)
qed

section \<open>Invoice numbers\<close>

subsection \<open>Decimal digits\<close>

lemma is_digit_nth: "n < 10 \<Longrightarrow> is_digit (''0123456789'' ! n)"
  unfolding is_digit_def by (rule nth_mem) simp

lemma digit_value_nth: "n < 10 \<Longrightarrow> digit_value (''0123456789'' ! n) = n"
proof -
  assume "n < 10"
  then have "n \<in> {0, 1, 2, 3, 4, 5, 6, 7, 8, 9}" by auto
  then show ?thesis by (auto simp: digit_value_def)
qed

lemma nat_digits_digits: "list_all is_digit (nat_digits n)"
proof (induction n rule: nat_digits.induct)
  case (1 n)
  then show ?case
    by (subst nat_digits.simps) (simp add: is_digit_nth)
qed

lemma nat_digits_not_Nil: "nat_digits n \<noteq> []"
  by (subst nat_digits.simps) simp

lemma digits_value_snoc: "digits_value (ds @ [c]) = 10 * digits_value ds + digit_value c"
  by (simp add: digits_value_def)

lemma digits_value_nat_digits: "digits_value (nat_digits n) = n"
proof (induction n rule: nat_digits.induct)
  case (1 n)
  show ?case
  proof (cases "n < 10")
    case True
    then show ?thesis
      by (subst nat_digits.simps) (simp add: digits_value_def digit_value_nth)
  next
    case False
    with 1 have "digits_value (nat_digits (n div 10)) = n div 10" by simp
    with False show ?thesis
      by (subst nat_digits.simps) (simp add: digits_value_snoc digit_value_nth)
  qed
qed

lemma length_nat_digits_le: "0 < k \<Longrightarrow> length (nat_digits n) \<le> k \<longleftrightarrow> n < 10 ^ k"
proof (induction n arbitrary: k rule: nat_digits.induct)
  case (1 n)
  show ?case
  proof (cases "n < 10")
    case True
    have "(10::nat) ^ 1 \<le> 10 ^ k"
      using 1(2) by (intro power_increasing) simp_all
    with True have "n < 10 ^ k" by simp
    with True 1(2) show ?thesis
      by (subst nat_digits.simps) (simp add: Suc_le_eq)
  next
    case False
    show ?thesis
    proof (cases k)
      case 0
      with 1(2) show ?thesis by simp
    next
      case (Suc k')
      show ?thesis
      proof (cases "k' = 0")
        case True
        with Suc False nat_digits_not_Nil [of "n div 10"] show ?thesis
          by (subst nat_digits.simps) (simp add: Suc_le_eq)
      next
        case nz: False
        with 1(1) [OF False, of k'] have "length (nat_digits (n div 10)) \<le> k' \<longleftrightarrow> n div 10 < 10 ^ k'"
          by simp
        moreover have "n div 10 < 10 ^ k' \<longleftrightarrow> n < 10 ^ Suc k'"
          by (simp add: div_less_iff_less_mult mult.commute)
        ultimately show ?thesis
          using False Suc by (subst nat_digits.simps) simp
      qed
    qed
  qed
qed

lemma hd_nat_digits: "0 < n \<Longrightarrow> hd (nat_digits n) \<noteq> CHR ''0''"
proof (induction n rule: nat_digits.induct)
  case (1 n)
  show ?case
  proof (cases "n < 10")
    case True
    with 1(2) have "n \<in> {1, 2, 3, 4, 5, 6, 7, 8, 9}" by auto
    then show ?thesis
      by (subst nat_digits.simps) auto
  next
    case False
    then have "0 < n div 10" by (simp add: div_greater_zero_iff)
    with 1(1) [OF False] have "hd (nat_digits (n div 10)) \<noteq> CHR ''0''" by simp
    with False nat_digits_not_Nil [of "n div 10"] show ?thesis
      by (subst nat_digits.simps) simp
  qed
qed

lemma digits_value_zeros: "digits_value (replicate k CHR ''0'' @ ds) = digits_value ds"
  by (induction k) (simp_all add: digits_value_def digit_value_def)

lemma format_0d_nat:
  "format_0d w (int n) = replicate (w - length (nat_digits n)) CHR ''0'' @ nat_digits n"
  by (simp add: format_0d_def)

lemma is_digit_zero: "is_digit CHR ''0''"
  by (simp add: is_digit_def)

lemma format_0d_digits: "list_all is_digit (format_0d w (int n))"
  using nat_digits_digits [of n] by (auto simp: format_0d_nat list_all_iff is_digit_zero)

lemma digits_value_format_0d: "digits_value (format_0d w (int n)) = n"
  by (simp add: format_0d_nat digits_value_zeros digits_value_nat_digits)

lemma length_format_0d:
  "0 < w \<Longrightarrow> n < 10 ^ w \<Longrightarrow> length (format_0d w (int n)) = w"
  using length_nat_digits_le [of w n] by (simp add: format_0d_nat)

lemma format_0d_long:
  "0 < w \<Longrightarrow> 10 ^ w \<le> n \<Longrightarrow> format_0d w (int n) = nat_digits n \<and> w < length (nat_digits n)"
  using length_nat_digits_le [of w n] by (simp add: format_0d_nat)


subsection \<open>Reading a number back\<close>

lemma digit_not_space: "is_digit c \<Longrightarrow> \<not> is_space c"
  by (auto simp: is_digit_def is_space_def)

lemma strip_digits:
  assumes "ds \<noteq> []" and "list_all is_digit ds"
  shows "strip ds = ds"
proof -
  from assms have "\<not> is_space (hd ds)"
    by (cases ds) (auto simp: digit_not_space)
  with assms have 1: "dropWhile is_space ds = ds"
    by (cases ds) auto
  from assms have "\<not> is_space (last ds)"
    by (auto simp: list_all_iff digit_not_space)
  with assms have "\<not> is_space (hd (rev ds))"
    by (simp add: hd_rev)
  with assms have "dropWhile is_space (rev ds) = rev ds"
    by (cases "rev ds") auto
  with 1 show ?thesis by (simp add: strip_def)
qed

lemma digit_groups_digits: "ds \<noteq> [] \<Longrightarrow> list_all is_digit ds \<Longrightarrow> digit_groups ds"
proof (induction ds rule: digit_groups.induct)
  case 1
  then show ?case by simp
next
  case (2 c)
  then show ?case by simp
next
  case (3 c d rest)
  then have "d \<noteq> CHR ''_''" by (auto simp: is_digit_def)
  with 3 show ?case by simp
qed

lemma py_int_digits:
  assumes "ds \<noteq> []" and "list_all is_digit ds"
  shows "py_int ds = Inr (int (digits_value ds))"
proof -
  from assms have "is_digit (hd ds)" by (cases ds) auto
  then have sign: "hd ds \<noteq> CHR ''-''" "hd ds \<noteq> CHR ''+''"
    by (auto simp: is_digit_def)
  from assms have "filter (\<lambda>c. c \<noteq> CHR ''_'') ds = ds"
    by (auto simp: list_all_iff is_digit_def intro!: filter_True)
  with assms sign show ?thesis
    by (simp add: py_int_def strip_digits digit_groups_digits Let_def)
qed

lemma digit_not_hyphen: "is_digit c \<Longrightarrow> c \<noteq> CHR ''-''"
  by (auto simp: is_digit_def)

lemma hyphen_not_in_digits: "list_all is_digit ds \<Longrightarrow> CHR ''-'' \<notin> set ds"
  using digit_not_hyphen by (auto simp: list_all_iff)

lemma last_segment_append:
  assumes "CHR ''-'' \<notin> set ds"
  shows "last_segment (p @ ''-'' @ ds) = ds"
proof -
  have "takeWhile (\<lambda>c. c \<noteq> CHR ''-'') (rev ds @ CHR ''-'' # rev p) = rev ds"
    using assms by (subst takeWhile_append2) auto
  then show ?thesis by (simp add: last_segment_def)
qed

subsection \<open>The greatest number of the day\<close>

lemma foldl_max_mem: "foldl max (x::string) xs \<in> set (x # xs)"
proof (induction xs arbitrary: x)
  case Nil
  show ?case by simp
next
  case (Cons y ys)
  from Cons [of "max x y"] show ?case by (auto simp: max_def split: if_splits)
qed

lemma foldl_max_ge: "\<forall>y \<in> set (x # xs). y \<le> foldl max (x::string) xs"
proof (induction xs arbitrary: x)
  case Nil
  show ?case by simp
next
  case (Cons z zs)
  from Cons [of "max x z"] have top: "max x z \<le> foldl max (max x z) zs"
    and rest: "\<forall>y \<in> set zs. y \<le> foldl max (max x z) zs"
    by simp_all
  have "x \<le> max x z" "z \<le> max x z" by simp_all
  with top have "x \<le> foldl max (max x z) zs" "z \<le> foldl max (max x z) zs"
    by (blast intro: order_trans)+
  with rest show ?case by simp
qed

lemma aggregate_max_greatest:
  assumes "l \<in> set xs" and "\<forall>x \<in> set xs. x \<le> l"
  shows "aggregate_max xs = Some l"
proof (cases xs)
  case Nil
  with assms show ?thesis by simp
next
  case (Cons x rest)
  have "foldl max x rest \<in> set xs" "l \<le> foldl max x rest"
    using foldl_max_mem [of x rest] foldl_max_ge [of x rest] assms(1) Cons by auto
  with assms(2) have "foldl max x rest = l" by (auto intro: antisym)
  with Cons show ?thesis by (simp add: aggregate_max_def)
qed

subsection \<open>The date\<close>

lemma strftime_Ymd_form:
  assumes "valid_date now"
  shows "length (strftime_Ymd now) = 8" and "list_all is_digit (strftime_Ymd now)"
proof -
  have y: "length (format_0d 4 (int (dt_year now))) = 4"
    using assms by (intro length_format_0d) (simp_all add: valid_date_def)
  have m: "length (format_0d 2 (int (dt_month now))) = 2"
    using assms by (intro length_format_0d) (simp_all add: valid_date_def)
  have d: "length (format_0d 2 (int (dt_day now))) = 2"
    using assms by (intro length_format_0d) (simp_all add: valid_date_def)
  show "length (strftime_Ymd now) = 8"
    by (simp add: strftime_Ymd_def y m d)
  show "list_all is_digit (strftime_Ymd now)"
    by (simp add: strftime_Ymd_def format_0d_digits)
qed


subsection \<open>The generator\<close>

lemma format_0d_4_1: "format_0d 4 1 = ''0001''"
  by code_simp

lemma generate_invoice_number_unfold:
  "generate_invoice_number now d =
     (case aggregate_max (numbers_of_day now d) of
        None \<Rightarrow> Inr (day_prefix now @ format_0d 4 1)
      | Some l \<Rightarrow>
          if l = [] then Inr (day_prefix now @ format_0d 4 1)
          else (case py_int (last_segment l) of
                  Inl e \<Rightarrow> Inl e
                | Inr n \<Rightarrow> Inr (day_prefix now @ format_0d 4 (n + 1))))"
  unfolding generate_invoice_number_def numbers_of_day_def day_prefix_def Let_def
  by (rule refl)

lemma replicate_small:
  "replicate 1 c = [c]" "replicate 2 c = [c, c]" "replicate 3 c = [c, c, c]"
  by (simp_all add: numeral_2_eq_2 numeral_3_eq_3)

lemma strftime_example: "strftime_Ymd example_now = ''20260105''"
  by (simp add: strftime_Ymd_def example_now_def format_0d_def nat_digits.simps replicate_small)

lemma valid_example_now: "valid_date example_now"
  by (simp add: valid_date_def example_now_def)

lemma numbers_of_day_example:
  "numbers_of_day example_now example_db = [''INV-20260105-0001'']"
  by (simp add: numbers_of_day_def day_prefix_def strftime_example startswith_def
      example_db_def example_invoice_def)

lemma numbers_of_day_busy:
  "numbers_of_day example_now busy_db = [''INV-20260105-0001'', ''INV-20260105-9999'']"
  by (simp add: numbers_of_day_def day_prefix_def strftime_example startswith_def
      busy_db_def example_invoice_def)

lemma format_0d_4_values: "format_0d 4 2 = ''0002''" "format_0d 4 10000 = ''10000''"
  by (simp_all add: format_0d_def nat_digits.simps replicate_small)

lemma digits_value_values: "digits_value ''0001'' = 1" "digits_value ''9999'' = 9999"
  by (simp_all add: digits_value_def digit_value_def)

lemma py_int_9999: "py_int ''9999'' = Inr 9999"
  by code_simp

text \<open>
  Claim C9, as amended. On a valid date the generator returns \<^verbatim>\<open>INV-\<close>, the eight
  digits of the date, a hyphen and a suffix. When no stored invoice number has the
  prefix of the day the suffix is \<^verbatim>\<open>0001\<close>. Otherwise, when the greatest stored number
  with the prefix ends in the digits \<open>ds\<close>, the suffix is the number of \<open>ds\<close> plus one,
  in decimal digits filled with zeros to at least four digits: exactly four digits while
  the number is below 10000, and all its digits (five or more, no leading zero) from
  10000 on.
\<close>

theorem generate_invoice_number_form:
  assumes "valid_date now"
  shows "length (strftime_Ymd now) = 8 \<and> list_all is_digit (strftime_Ymd now)
    \<and> (numbers_of_day now d = [] \<longrightarrow>
         generate_invoice_number now d = Inr (day_prefix now @ ''0001''))
    \<and> (\<forall>l ds. l \<in> set (numbers_of_day now d) \<and> (\<forall>x \<in> set (numbers_of_day now d). x \<le> l)
          \<and> l = day_prefix now @ ds \<and> ds \<noteq> [] \<and> list_all is_digit ds \<longrightarrow>
         (\<exists>suffix. generate_invoice_number now d = Inr (day_prefix now @ suffix)
            \<and> suffix = format_0d 4 (int (digits_value ds) + 1)
            \<and> list_all is_digit suffix \<and> digits_value suffix = digits_value ds + 1
            \<and> (digits_value ds + 1 < 10000 \<longrightarrow> length suffix = 4)
            \<and> (10000 \<le> digits_value ds + 1 \<longrightarrow> 4 < length suffix \<and> hd suffix \<noteq> CHR ''0'')))"
proof (intro conjI allI impI)
  show "length (strftime_Ymd now) = 8" "list_all is_digit (strftime_Ymd now)"
    using strftime_Ymd_form [OF assms] by simp_all
next
  assume "numbers_of_day now d = []"
  then show "generate_invoice_number now d = Inr (day_prefix now @ ''0001'')"
    by (simp add: generate_invoice_number_unfold aggregate_max_def format_0d_4_1)
next
  fix l ds
  assume a: "l \<in> set (numbers_of_day now d) \<and> (\<forall>x \<in> set (numbers_of_day now d). x \<le> l)
          \<and> l = day_prefix now @ ds \<and> ds \<noteq> [] \<and> list_all is_digit ds"
  let ?n = "digits_value ds + 1"
  let ?suffix = "format_0d 4 (int ?n)"
  from a have mem: "l \<in> set (numbers_of_day now d)"
    and top: "\<forall>x \<in> set (numbers_of_day now d). x \<le> l"
    and l: "l = day_prefix now @ ds" and ds: "ds \<noteq> []" "list_all is_digit ds"
    by blast+
  from mem top have last: "aggregate_max (numbers_of_day now d) = Some l"
    by (rule aggregate_max_greatest)
  from ds have "CHR ''-'' \<notin> set ds"
    by (simp add: hyphen_not_in_digits)
  then have "last_segment ((''INV-'' @ strftime_Ymd now) @ ''-'' @ ds) = ds"
    by (rule last_segment_append)
  then have seg: "last_segment l = ds"
    unfolding l day_prefix_def by simp
  from ds have num: "py_int ds = Inr (int (digits_value ds))"
    by (rule py_int_digits)
  from l ds have "l \<noteq> []" by simp
  with last have "generate_invoice_number now d =
      (case py_int (last_segment l) of Inl e \<Rightarrow> Inl e
       | Inr n \<Rightarrow> Inr (day_prefix now @ format_0d 4 (n + 1)))"
    by (simp add: generate_invoice_number_unfold)
  also have "\<dots> = Inr (day_prefix now @ format_0d 4 (int (digits_value ds) + 1))"
    unfolding seg num by simp
  finally have gen: "generate_invoice_number now d
      = Inr (day_prefix now @ format_0d 4 (int (digits_value ds) + 1))" .
  have long: "4 < length ?suffix \<and> hd ?suffix \<noteq> CHR ''0''" if "10000 \<le> ?n"
  proof -
    from that have "(10::nat) ^ 4 \<le> ?n" by simp
    then have f: "?suffix = nat_digits ?n" "4 < length (nat_digits ?n)"
      using format_0d_long [of 4 ?n] by simp_all
    have "hd (nat_digits ?n) \<noteq> CHR ''0''"
      by (rule hd_nat_digits) simp
    with f show ?thesis by simp
  qed
  have short: "length ?suffix = 4" if "?n < 10000"
    using that by (intro length_format_0d) simp_all
  have eq: "int (digits_value ds) + 1 = int ?n" by simp
  show "\<exists>suffix. generate_invoice_number now d = Inr (day_prefix now @ suffix)
            \<and> suffix = format_0d 4 (int (digits_value ds) + 1)
            \<and> list_all is_digit suffix \<and> digits_value suffix = digits_value ds + 1
            \<and> (digits_value ds + 1 < 10000 \<longrightarrow> length suffix = 4)
            \<and> (10000 \<le> digits_value ds + 1 \<longrightarrow> 4 < length suffix \<and> hd suffix \<noteq> CHR ''0'')"
    unfolding eq
    using gen [unfolded eq] format_0d_digits [of 4 ?n] digits_value_format_0d [of 4 ?n] long short
    by blast
qed

theorem generate_invoice_number_form_witness:
  "valid_date example_now
   \<and> generate_invoice_number example_now (example_db\<lparr>invoices := []\<rparr>) = Inr ''INV-20260105-0001''
   \<and> generate_invoice_number example_now example_db = Inr ''INV-20260105-0002''"
proof -
  note form = generate_invoice_number_form [OF valid_example_now]
  have "numbers_of_day example_now (example_db\<lparr>invoices := []\<rparr>) = []"
    by (simp add: numbers_of_day_def)
  with form [of "example_db\<lparr>invoices := []\<rparr>"]
  have first: "generate_invoice_number example_now (example_db\<lparr>invoices := []\<rparr>)
      = Inr ''INV-20260105-0001''"
    by (simp add: day_prefix_def strftime_example)
  from form [of example_db]
  have "\<forall>l ds. l \<in> set (numbers_of_day example_now example_db)
          \<and> (\<forall>x \<in> set (numbers_of_day example_now example_db). x \<le> l)
          \<and> l = day_prefix example_now @ ds \<and> ds \<noteq> [] \<and> list_all is_digit ds \<longrightarrow>
         generate_invoice_number example_now example_db
           = Inr (day_prefix example_now @ format_0d 4 (int (digits_value ds) + 1))"
    by blast
  from this [rule_format, of "''INV-20260105-0001''" "''0001''"]
  have "generate_invoice_number example_now example_db = Inr ''INV-20260105-0002''"
    by (simp add: numbers_of_day_example day_prefix_def strftime_example is_digit_def
        digits_value_values format_0d_4_values)
  with first valid_example_now show ?thesis by simp
qed

text \<open>
  The claim as stated has a suffix of four digits on every call. Once the number 9999
  has been issued on a day, the next call returns a suffix of five digits.
\<close>

theorem five_digit_suffix_counterexample:
  "generate_invoice_number example_now busy_db = Inr (''INV-20260105-'' @ ''10000'')
   \<and> length ''10000'' = 5"
  by (simp add: generate_invoice_number_unfold numbers_of_day_busy aggregate_max_def
      last_segment_def py_int_9999 day_prefix_def strftime_example format_0d_4_values)

end
